theory Spec2Isabelle
  imports Main "HOL-Library.Word"
begin

unbundle bit_operations_syntax

section \<open>Machine model\<close>

text \<open>
  The driver runs on a 32-bit little-endian target. Memory is byte addressed; a pointer
  is a 32-bit address. \<open>int32_t\<close>, \<open>uint32_t\<close> and the promoted type \<open>int\<close> are
  \<open>32 word\<close>, \<open>int16_t\<close> and \<open>uint16_t\<close> are \<open>16 word\<close>, \<open>uint8_t\<close> is \<open>8 word\<close>;
  signedness is in the operation (\<open>scast\<close> sign-extends, \<open>ucast\<close> zero-extends or
  truncates, \<open>signed_drop_bit\<close> is the arithmetic right shift, \<open>drop_bit\<close> the logical
  one). Arithmetic on \<open>32 word\<close> wraps modulo \<open>2 ^ 32\<close>.
\<close>

type_synonym ptr = "32 word"
type_synonym memory = "ptr \<Rightarrow> 8 word"

definition load16 :: "memory \<Rightarrow> ptr \<Rightarrow> 16 word" where
  "load16 m a = push_bit 8 (ucast (m (a + 1))) OR ucast (m a)"

definition load32 :: "memory \<Rightarrow> ptr \<Rightarrow> 32 word" where
  "load32 m a = push_bit 24 (ucast (m (a + 3))) OR push_bit 16 (ucast (m (a + 2)))
                OR push_bit 8 (ucast (m (a + 1))) OR ucast (m a)"

definition store16 :: "memory \<Rightarrow> ptr \<Rightarrow> 16 word \<Rightarrow> memory" where
  "store16 m a v = m(a := ucast v, a + 1 := ucast (drop_bit 8 v))"

definition store32 :: "memory \<Rightarrow> ptr \<Rightarrow> 32 word \<Rightarrow> memory" where
  "store32 m a v = m(a := ucast v, a + 1 := ucast (drop_bit 8 v),
                     a + 2 := ucast (drop_bit 16 v), a + 3 := ucast (drop_bit 24 v))"

subsection \<open>The calibration structure\<close>

text \<open>\<open>struct bmp280_calib_param\<close>: twelve 16-bit fields, no padding, 24 bytes.\<close>

record bmp280_calib_param =
  dig_t1 :: "16 word"
  dig_t2 :: "16 word"
  dig_t3 :: "16 word"
  dig_p1 :: "16 word"
  dig_p2 :: "16 word"
  dig_p3 :: "16 word"
  dig_p4 :: "16 word"
  dig_p5 :: "16 word"
  dig_p6 :: "16 word"
  dig_p7 :: "16 word"
  dig_p8 :: "16 word"
  dig_p9 :: "16 word"

text \<open>Reading the structure through a pointer \<open>params\<close>: field \<open>k\<close> lies at offset \<open>2 * k\<close>.\<close>

definition load_calib :: "memory \<Rightarrow> ptr \<Rightarrow> bmp280_calib_param" where
  "load_calib m params =
     \<lparr> dig_t1 = load16 m params,
       dig_t2 = load16 m (params + 2),
       dig_t3 = load16 m (params + 4),
       dig_p1 = load16 m (params + 6),
       dig_p2 = load16 m (params + 8),
       dig_p3 = load16 m (params + 10),
       dig_p4 = load16 m (params + 12),
       dig_p5 = load16 m (params + 14),
       dig_p6 = load16 m (params + 16),
       dig_p7 = load16 m (params + 18),
       dig_p8 = load16 m (params + 20),
       dig_p9 = load16 m (params + 22) \<rparr>"

section \<open>Compensation\<close>

text \<open>
  \<open>bmp280_convert\<close> (lines 140 to 153): the fine resolution temperature. \<open>dig_t1\<close> is
  \<open>uint16_t\<close> and is zero-extended by the cast to \<open>int32_t\<close>; \<open>dig_t2\<close> and \<open>dig_t3\<close>
  are \<open>int16_t\<close> and are sign-extended.
\<close>

definition bmp280_convert :: "memory \<Rightarrow> ptr \<Rightarrow> ptr \<Rightarrow> 32 word" where
  "bmp280_convert m temp params =
     (let t = load32 m temp;
          c = load_calib m params;
          t1 = (ucast (dig_t1 c) :: 32 word);
          t2 = (scast (dig_t2 c) :: 32 word);
          t3 = (scast (dig_t3 c) :: 32 word);
          var1 = signed_drop_bit 11 ((signed_drop_bit 3 t - push_bit 1 t1) * t2);
          var2 = signed_drop_bit 14
                   (signed_drop_bit 12 ((signed_drop_bit 4 t - t1) * (signed_drop_bit 4 t - t1)) * t3)
      in var1 + var2)"

text \<open>
  \<open>bmp280_convert_temp\<close> and \<open>bmp280_convert_pressure\<close> receive the pointers \<open>temp\<close>
  and \<open>params\<close> and pass \<open>&temp\<close> and \<open>&params\<close> on: the addresses of their own
  parameter objects. A \<open>frame\<close> gives the addresses at which a call keeps these two
  parameters (4 bytes each); \<open>enter\<close> is the memory once the call has stored them there.
\<close>

record frame =
  at_temp :: ptr
  at_params :: ptr

definition enter :: "memory \<Rightarrow> frame \<Rightarrow> ptr \<Rightarrow> ptr \<Rightarrow> memory" where
  "enter m fr temp params = store32 (store32 m (at_temp fr) temp) (at_params fr) params"

text \<open>\<open>bmp280_convert_temp\<close> (lines 155 to 160).\<close>

definition bmp280_convert_temp :: "memory \<Rightarrow> frame \<Rightarrow> ptr \<Rightarrow> ptr \<Rightarrow> 32 word" where
  "bmp280_convert_temp m fr temp params =
     (let t_fine = bmp280_convert (enter m fr temp params) (at_temp fr) (at_params fr)
      in signed_drop_bit 8 (t_fine * 5 + 128))"

text \<open>
  \<open>bmp280_convert_pressure\<close> (lines 162 to 192). The only fallible operation is the
  unsigned division; \<open>udiv32\<close> makes a zero divisor a fault. \<open>pressure_var2\<close> is the
  value of \<open>var2\<close> after line 170 and \<open>pressure_var1\<close> the value of \<open>var1\<close> after
  line 174, both as functions of \<open>t_fine\<close> and \<open>*params\<close>; \<open>compensate_pressure\<close> is
  the function body from line 165 on, given \<open>t_fine\<close>, \<open>*pressure\<close> and \<open>*params\<close>.
\<close>

datatype fault = DivisionByZero

definition udiv32 :: "32 word \<Rightarrow> 32 word \<Rightarrow> fault + 32 word" where
  "udiv32 a b = (if b = 0 then Inl DivisionByZero else Inr (a div b))"

definition pressure_var2 :: "32 word \<Rightarrow> bmp280_calib_param \<Rightarrow> 32 word" where
  "pressure_var2 t_fine c =
     (let var1 = signed_drop_bit 1 t_fine - 64000;
          var2 = signed_drop_bit 11 (signed_drop_bit 2 var1 * signed_drop_bit 2 var1)
                   * scast (dig_p6 c);
          var2 = var2 + push_bit 1 (var1 * scast (dig_p5 c))
      in signed_drop_bit 2 var2 + push_bit 16 (scast (dig_p4 c)))"

definition pressure_var1 :: "32 word \<Rightarrow> bmp280_calib_param \<Rightarrow> 32 word" where
  "pressure_var1 t_fine c =
     (let var1 = signed_drop_bit 1 t_fine - 64000;
          var1 = signed_drop_bit 18
                   (signed_drop_bit 3
                      (scast (dig_p3 c)
                         * signed_drop_bit 13 (signed_drop_bit 2 var1 * signed_drop_bit 2 var1))
                    + signed_drop_bit 1 (scast (dig_p2 c) * var1))
      in signed_drop_bit 15 ((32768 + var1) * ucast (dig_p1 c)))"

definition pressure_finish :: "32 word \<Rightarrow> bmp280_calib_param \<Rightarrow> 32 word" where
  "pressure_finish converted c =
     (let var1 = signed_drop_bit 12
                   (scast (dig_p9 c)
                      * drop_bit 13 (drop_bit 3 converted * drop_bit 3 converted));
          var2 = signed_drop_bit 13 (drop_bit 2 converted * scast (dig_p8 c))
      in converted + signed_drop_bit 4 (var1 + var2 + scast (dig_p7 c)))"

definition compensate_pressure ::
  "32 word \<Rightarrow> 32 word \<Rightarrow> bmp280_calib_param \<Rightarrow> fault + 32 word" where
  "compensate_pressure t_fine p c =
     (let var2 = pressure_var2 t_fine c;
          var1 = pressure_var1 t_fine c
      in if var1 = 0 then Inr 0
         else
           let converted = (1048576 - p - signed_drop_bit 12 var2) * 3125;
               quotient = (if converted < 0x80000000
                           then udiv32 (push_bit 1 converted) var1
                           else map_sum id (\<lambda>q. q * 2) (udiv32 converted var1))
           in map_sum id (\<lambda>q. pressure_finish q c) quotient)"

definition bmp280_convert_pressure ::
  "memory \<Rightarrow> frame \<Rightarrow> ptr \<Rightarrow> ptr \<Rightarrow> ptr \<Rightarrow> fault + 32 word" where
  "bmp280_convert_pressure m fr pressure temp params =
     (let m' = enter m fr temp params;
          t_fine = bmp280_convert m' (at_temp fr) (at_params fr)
      in compensate_pressure t_fine (load32 m' pressure) (load_calib m' params))"

section \<open>The bus\<close>

text \<open>
  \<open>i2c_write_blocking\<close> and \<open>i2c_read_blocking\<close> belong to the SDK. The model records
  every call in order; the bytes that the \<open>k\<close>-th read leaves in its buffer are given by
  the environment \<open>rx k\<close>, byte by byte, and are arbitrary. The driver ignores the
  return values of both functions.
\<close>

datatype bus_op =
    I2C_Write "8 word" "8 word list" bool
  | I2C_Read "8 word" nat bool

record state =
  mem :: memory
  bus :: "bus_op list"
  reads :: nat

type_synonym environment = "nat \<Rightarrow> nat \<Rightarrow> 8 word"

definition i2c_write_blocking :: "state \<Rightarrow> 8 word \<Rightarrow> 8 word list \<Rightarrow> bool \<Rightarrow> state" where
  "i2c_write_blocking s a src nostop = s\<lparr>bus := bus s @ [I2C_Write a src nostop]\<rparr>"

definition i2c_read_blocking ::
  "environment \<Rightarrow> state \<Rightarrow> 8 word \<Rightarrow> nat \<Rightarrow> bool \<Rightarrow> 8 word list \<times> state" where
  "i2c_read_blocking rx s a len nostop =
     (map (rx (reads s)) [0..<len],
      s\<lparr>bus := bus s @ [I2C_Read a len nostop], reads := Suc (reads s)\<rparr>)"

section \<open>Register map\<close>

definition NUM_CALIB_PARAMS :: nat where "NUM_CALIB_PARAMS = 24"

definition addr :: "8 word" where "addr = 0x76"

definition REG_CONFIG :: "8 word" where "REG_CONFIG = 0xF5"
definition REG_CTRL_MEAS :: "8 word" where "REG_CTRL_MEAS = 0xF4"
definition REG_RESET :: "8 word" where "REG_RESET = 0xE0"

definition REG_TEMP_XLSB :: "8 word" where "REG_TEMP_XLSB = 0xFC"
definition REG_TEMP_LSB :: "8 word" where "REG_TEMP_LSB = 0xFB"
definition REG_TEMP_MSB :: "8 word" where "REG_TEMP_MSB = 0xFA"

definition REG_PRESSURE_XLSB :: "8 word" where "REG_PRESSURE_XLSB = 0xF9"
definition REG_PRESSURE_LSB :: "8 word" where "REG_PRESSURE_LSB = 0xF8"
definition REG_PRESSURE_MSB :: "8 word" where "REG_PRESSURE_MSB = 0xF7"

definition REG_DIG_T1_LSB :: "8 word" where "REG_DIG_T1_LSB = 0x88"
definition REG_DIG_T1_MSB :: "8 word" where "REG_DIG_T1_MSB = 0x89"
definition REG_DIG_T2_LSB :: "8 word" where "REG_DIG_T2_LSB = 0x8A"
definition REG_DIG_T2_MSB :: "8 word" where "REG_DIG_T2_MSB = 0x8B"
definition REG_DIG_T3_LSB :: "8 word" where "REG_DIG_T3_LSB = 0x8C"
definition REG_DIG_T3_MSB :: "8 word" where "REG_DIG_T3_MSB = 0x8D"
definition REG_DIG_P1_LSB :: "8 word" where "REG_DIG_P1_LSB = 0x8E"
definition REG_DIG_P1_MSB :: "8 word" where "REG_DIG_P1_MSB = 0x8F"
definition REG_DIG_P2_LSB :: "8 word" where "REG_DIG_P2_LSB = 0x90"
definition REG_DIG_P2_MSB :: "8 word" where "REG_DIG_P2_MSB = 0x91"
definition REG_DIG_P3_LSB :: "8 word" where "REG_DIG_P3_LSB = 0x92"
definition REG_DIG_P3_MSB :: "8 word" where "REG_DIG_P3_MSB = 0x93"
definition REG_DIG_P4_LSB :: "8 word" where "REG_DIG_P4_LSB = 0x94"
definition REG_DIG_P4_MSB :: "8 word" where "REG_DIG_P4_MSB = 0x95"
definition REG_DIG_P5_LSB :: "8 word" where "REG_DIG_P5_LSB = 0x96"
definition REG_DIG_P5_MSB :: "8 word" where "REG_DIG_P5_MSB = 0x97"
definition REG_DIG_P6_LSB :: "8 word" where "REG_DIG_P6_LSB = 0x98"
definition REG_DIG_P6_MSB :: "8 word" where "REG_DIG_P6_MSB = 0x99"
definition REG_DIG_P7_LSB :: "8 word" where "REG_DIG_P7_LSB = 0x9A"
definition REG_DIG_P7_MSB :: "8 word" where "REG_DIG_P7_MSB = 0x9B"
definition REG_DIG_P8_LSB :: "8 word" where "REG_DIG_P8_LSB = 0x9C"
definition REG_DIG_P8_MSB :: "8 word" where "REG_DIG_P8_MSB = 0x9D"
definition REG_DIG_P9_LSB :: "8 word" where "REG_DIG_P9_LSB = 0x9E"
definition REG_DIG_P9_MSB :: "8 word" where "REG_DIG_P9_MSB = 0x9F"

definition BMP280_WRITE_MODE :: "8 word" where "BMP280_WRITE_MODE = 0xFE"
definition BMP280_READ_MODE :: "8 word" where "BMP280_READ_MODE = 0xFF"

section \<open>Device access\<close>

text \<open>
  \<open>bmp280_init\<close> (lines 98 to 116). The two configuration values are computed in
  \<open>int\<close> and narrowed to \<open>uint8_t\<close>.
\<close>

definition reg_config_val :: "8 word" where
  "reg_config_val = ucast ((push_bit 5 (0x04 :: 32 word) OR push_bit 2 0x05) AND 0xFC)"

definition reg_ctrl_meas_val :: "8 word" where
  "reg_ctrl_meas_val = ucast (push_bit 5 (0x01 :: 32 word) OR push_bit 2 0x03 OR 0x03)"

definition bmp280_init :: "state \<Rightarrow> state" where
  "bmp280_init s =
     (let s1 = i2c_write_blocking s (addr AND BMP280_WRITE_MODE)
                 [REG_CONFIG, reg_config_val] False
      in i2c_write_blocking s1 (addr AND BMP280_WRITE_MODE)
           [REG_CTRL_MEAS, reg_ctrl_meas_val] False)"

text \<open>
  \<open>bmp280_read_raw\<close> (lines 118 to 132). \<open>raw20\<close> is the expression of lines 130 and
  131 on three buffer bytes, each promoted to \<open>int\<close>. \<open>*pressure\<close> is written first,
  \<open>*temp\<close> second.
\<close>

definition raw20 :: "8 word \<Rightarrow> 8 word \<Rightarrow> 8 word \<Rightarrow> 32 word" where
  "raw20 b0 b1 b2 = push_bit 12 (ucast b0) OR push_bit 4 (ucast b1) OR drop_bit 4 (ucast b2)"

definition bmp280_read_raw :: "environment \<Rightarrow> state \<Rightarrow> ptr \<Rightarrow> ptr \<Rightarrow> state" where
  "bmp280_read_raw rx s temp pressure =
     (let s1 = i2c_write_blocking s (addr AND BMP280_WRITE_MODE) [REG_PRESSURE_MSB] True;
          (buf, s2) = i2c_read_blocking rx s1 (addr AND BMP280_READ_MODE) 6 False;
          m1 = store32 (mem s2) pressure (raw20 (buf ! 0) (buf ! 1) (buf ! 2));
          m2 = store32 m1 temp (raw20 (buf ! 3) (buf ! 4) (buf ! 5))
      in s2\<lparr>mem := m2\<rparr>)"

text \<open>\<open>bmp280_reset\<close> (lines 134 to 138).\<close>

definition bmp280_reset :: "state \<Rightarrow> state" where
  "bmp280_reset s =
     i2c_write_blocking s (addr AND BMP280_WRITE_MODE) [REG_RESET, 0xB6] False"

text \<open>
  \<open>bmp280_get_calib_params\<close> (lines 194 to 221). \<open>calib_u16\<close> is the expression
  \<open>(uint16_t)(msb << 8) | lsb\<close> stored into a \<open>uint16_t\<close> field, \<open>calib_s16\<close> the
  expression \<open>(int16_t)(msb << 8) | lsb\<close> stored into an \<open>int16_t\<close> field: the shift is
  done in \<open>int\<close>, the cast narrows to 16 bits, the cast value is promoted back to \<open>int\<close>
  (zero-extended when unsigned, sign-extended when signed) for the \<open>|\<close>, and the
  assignment narrows again.
\<close>

definition calib_u16 :: "8 word \<Rightarrow> 8 word \<Rightarrow> 16 word" where
  "calib_u16 msb lsb =
     ucast ((ucast (ucast (push_bit 8 (ucast msb :: 32 word)) :: 16 word) :: 32 word)
            OR ucast lsb)"

definition calib_s16 :: "8 word \<Rightarrow> 8 word \<Rightarrow> 16 word" where
  "calib_s16 msb lsb =
     ucast ((scast (ucast (push_bit 8 (ucast msb :: 32 word)) :: 16 word) :: 32 word)
            OR ucast lsb)"

definition bmp280_get_calib_params :: "environment \<Rightarrow> state \<Rightarrow> ptr \<Rightarrow> state" where
  "bmp280_get_calib_params rx s params =
     (let s1 = i2c_write_blocking s (addr AND BMP280_WRITE_MODE) [REG_DIG_T1_LSB] True;
          (buf, s2) = i2c_read_blocking rx s1 (addr AND BMP280_READ_MODE) NUM_CALIB_PARAMS False;
          m = mem s2;
          m = store16 m params (calib_u16 (buf ! 1) (buf ! 0));
          m = store16 m (params + 2) (calib_s16 (buf ! 3) (buf ! 2));
          m = store16 m (params + 4) (calib_s16 (buf ! 5) (buf ! 4));
          m = store16 m (params + 6) (calib_u16 (buf ! 7) (buf ! 6));
          m = store16 m (params + 8) (calib_s16 (buf ! 9) (buf ! 8));
          m = store16 m (params + 10) (calib_s16 (buf ! 11) (buf ! 10));
          m = store16 m (params + 12) (calib_s16 (buf ! 13) (buf ! 12));
          m = store16 m (params + 14) (calib_s16 (buf ! 15) (buf ! 14));
          m = store16 m (params + 16) (calib_s16 (buf ! 17) (buf ! 16));
          m = store16 m (params + 18) (calib_s16 (buf ! 19) (buf ! 18));
          m = store16 m (params + 20) (calib_s16 (buf ! 21) (buf ! 20));
          m = store16 m (params + 22) (calib_s16 (buf ! 23) (buf ! 22))
      in s2\<lparr>mem := m\<rparr>)"

section \<open>The main program\<close>

text \<open>
  \<open>main\<close> (lines 225 to 273) keeps \<open>params\<close>, \<open>temp\<close> and \<open>pressure\<close> as locals; a
  \<open>layout\<close> gives their addresses and the frames of the two conversion calls.
  \<open>main_setup\<close> is lines 250 to 255, \<open>main_loop_body\<close> one pass through lines 261 to
  264 with the two conversion results, and \<open>main_loop n\<close> the first \<open>n\<close> passes of the
  endless loop with the readings they produced, oldest first. The conversion of the two
  results to \<open>float\<close>, the console output and the delay are not modelled.
\<close>

record layout =
  params_at :: ptr
  temp_at :: ptr
  pressure_at :: ptr
  temp_call :: frame
  pressure_call :: frame

type_synonym reading = "32 word \<times> (fault + 32 word)"

definition main_setup :: "environment \<Rightarrow> layout \<Rightarrow> state \<Rightarrow> state" where
  "main_setup rx l s = bmp280_get_calib_params rx (bmp280_init s) (params_at l)"

definition main_loop_body :: "environment \<Rightarrow> layout \<Rightarrow> state \<Rightarrow> reading \<times> state" where
  "main_loop_body rx l s =
     (let s1 = bmp280_read_raw rx s (temp_at l) (pressure_at l);
          converted_temp = bmp280_convert_temp (mem s1) (temp_call l) (temp_at l) (params_at l);
          converted_pressure =
            bmp280_convert_pressure (mem s1) (pressure_call l)
              (pressure_at l) (temp_at l) (params_at l)
      in ((converted_temp, converted_pressure), s1))"

fun main_loop :: "nat \<Rightarrow> environment \<Rightarrow> layout \<Rightarrow> state \<Rightarrow> reading list \<times> state" where
  "main_loop 0 rx l s = ([], s)"
| "main_loop (Suc n) rx l s =
     (let (r, s1) = main_loop_body rx l s;
          (rs, s2) = main_loop n rx l s1
      in (r # rs, s2))"

definition main :: "nat \<Rightarrow> environment \<Rightarrow> layout \<Rightarrow> state \<Rightarrow> reading list \<times> state" where
  "main n rx l s = main_loop n rx l (main_setup rx l s)"

section \<open>The specification's arithmetic\<close>

text \<open>
  The formulas of the specification, on mathematical integers with the 32-bit behaviour
  written out: \<open>wrap_s32\<close> is two's-complement wrap-around to the signed range,
  \<open>wrap_u32\<close> the unsigned one, \<open>asr\<close> the arithmetic (sign-preserving) right shift.
\<close>

definition wrap_s32 :: "int \<Rightarrow> int" where
  "wrap_s32 k = (k + 2 ^ 31) mod 2 ^ 32 - 2 ^ 31"

definition wrap_u32 :: "int \<Rightarrow> int" where
  "wrap_u32 k = k mod 2 ^ 32"

definition asr :: "int \<Rightarrow> nat \<Rightarrow> int" where
  "asr k n = k div 2 ^ n"

definition spec_fine :: "int \<Rightarrow> int \<Rightarrow> int \<Rightarrow> int \<Rightarrow> int" where
  "spec_fine raw_t t1 t2 t3 =
     (let v1 = asr (wrap_s32 (wrap_s32 (asr raw_t 3 - wrap_s32 (t1 * 2)) * t2)) 11;
          d = wrap_s32 (asr raw_t 4 - t1);
          v2 = asr (wrap_s32 (asr (wrap_s32 (d * d)) 12 * t3)) 14
      in wrap_s32 (v1 + v2))"

definition spec_temperature :: "int \<Rightarrow> int \<Rightarrow> int \<Rightarrow> int \<Rightarrow> int" where
  "spec_temperature raw_t t1 t2 t3 =
     asr (wrap_s32 (wrap_s32 (spec_fine raw_t t1 t2 t3 * 5) + 128)) 8"

text \<open>
  The pressure formula takes the coefficients as integers: \<open>dig_t1\<close> and \<open>dig_p1\<close> read
  as unsigned, the others as two's-complement signed. \<open>p\<close> is unsigned; its shifts are
  written with \<open>asr\<close> too, which on a non-negative value is the logical shift.
\<close>

record spec_params =
  T1 :: int
  T2 :: int
  T3 :: int
  P1 :: int
  P2 :: int
  P3 :: int
  P4 :: int
  P5 :: int
  P6 :: int
  P7 :: int
  P8 :: int
  P9 :: int

definition spec_params_of :: "bmp280_calib_param \<Rightarrow> spec_params" where
  "spec_params_of c =
     \<lparr> T1 = uint (dig_t1 c), T2 = sint (dig_t2 c), T3 = sint (dig_t3 c),
       P1 = uint (dig_p1 c), P2 = sint (dig_p2 c), P3 = sint (dig_p3 c),
       P4 = sint (dig_p4 c), P5 = sint (dig_p5 c), P6 = sint (dig_p6 c),
       P7 = sint (dig_p7 c), P8 = sint (dig_p8 c), P9 = sint (dig_p9 c) \<rparr>"

definition spec_var2 :: "int \<Rightarrow> spec_params \<Rightarrow> int" where
  "spec_var2 fine k =
     (let v1 = wrap_s32 (asr fine 1 - 64000);
          v2 = wrap_s32 (asr (wrap_s32 (asr v1 2 * asr v1 2)) 11 * P6 k);
          v2 = wrap_s32 (v2 + wrap_s32 (wrap_s32 (v1 * P5 k) * 2 ^ 1))
      in wrap_s32 (asr v2 2 + wrap_s32 (P4 k * 2 ^ 16)))"

definition spec_var1 :: "int \<Rightarrow> spec_params \<Rightarrow> int" where
  "spec_var1 fine k =
     (let v1 = wrap_s32 (asr fine 1 - 64000);
          v1 = asr (wrap_s32 (asr (wrap_s32 (P3 k * asr (wrap_s32 (asr v1 2 * asr v1 2)) 13)) 3
                              + asr (wrap_s32 (P2 k * v1)) 1)) 18
      in asr (wrap_s32 (wrap_s32 (32768 + v1) * P1 k)) 15)"

text \<open>
  \<open>spec_quotient\<close> is \<open>p\<close> after the branch on \<open>p < 0x80000000\<close>; the signed \<open>v1\<close>
  divides as an unsigned 32-bit value.
\<close>

definition spec_quotient :: "int \<Rightarrow> int \<Rightarrow> spec_params \<Rightarrow> int" where
  "spec_quotient fine raw_pressure k =
     (let v1 = spec_var1 fine k;
          v2 = spec_var2 fine k;
          p = wrap_u32 ((1048576 - raw_pressure - asr v2 12) * 3125)
      in if p < 0x80000000 then wrap_u32 (p * 2 ^ 1) div wrap_u32 v1
         else wrap_u32 (p div wrap_u32 v1 * 2))"

text \<open>
  The last three lines of the formula, as the specification writes them:
  \<open>v1 = (p9 * ((int32)((p >> 3) * (p >> 3)) >> 13)) >> 12\<close> casts the square to signed
  and then shifts it arithmetically.
\<close>

definition spec_finish :: "int \<Rightarrow> spec_params \<Rightarrow> int" where
  "spec_finish p k =
     (let v1 = asr (wrap_s32 (P9 k * asr (wrap_s32 (wrap_u32 (asr p 3 * asr p 3))) 13)) 12;
          v2 = asr (wrap_s32 (wrap_s32 (asr p 2) * P8 k)) 13
      in wrap_u32 (wrap_s32 (wrap_s32 p + asr (wrap_s32 (wrap_s32 (v1 + v2) + P7 k)) 4)))"

definition spec_pressure :: "int \<Rightarrow> int \<Rightarrow> spec_params \<Rightarrow> int" where
  "spec_pressure fine raw_pressure k =
     (if spec_var1 fine k = 0 then 0
      else spec_finish (spec_quotient fine raw_pressure k) k)"

text \<open>
  The same with the square shifted as the unsigned value it is, and cast to signed
  afterwards: \<open>v1 = (p9 * (int32)(((p >> 3) * (p >> 3)) >> 13)) >> 12\<close>.
\<close>

definition spec_finish_unsigned :: "int \<Rightarrow> spec_params \<Rightarrow> int" where
  "spec_finish_unsigned p k =
     (let v1 = asr (wrap_s32 (P9 k * wrap_s32 (asr (wrap_u32 (asr p 3 * asr p 3)) 13))) 12;
          v2 = asr (wrap_s32 (wrap_s32 (asr p 2) * P8 k)) 13
      in wrap_u32 (wrap_s32 (wrap_s32 p + asr (wrap_s32 (wrap_s32 (v1 + v2) + P7 k)) 4)))"

definition spec_pressure_unsigned :: "int \<Rightarrow> int \<Rightarrow> spec_params \<Rightarrow> int" where
  "spec_pressure_unsigned fine raw_pressure k =
     (if spec_var1 fine k = 0 then 0
      else spec_finish_unsigned (spec_quotient fine raw_pressure k) k)"

text \<open>
  Decoding of the wire formats, on integers: a raw sample from three bytes, a
  calibration coefficient from its two bytes, and the two's-complement reading of a
  16-bit value.
\<close>

definition spec_raw20 :: "8 word \<Rightarrow> 8 word \<Rightarrow> 8 word \<Rightarrow> int" where
  "spec_raw20 byte0 byte1 byte2 =
     push_bit 12 (uint byte0) OR push_bit 4 (uint byte1) OR drop_bit 4 (uint byte2)"

definition spec_coeff :: "8 word \<Rightarrow> 8 word \<Rightarrow> int" where
  "spec_coeff lsb msb = push_bit 8 (uint msb) OR uint lsb"

definition spec_signed16 :: "int \<Rightarrow> int" where
  "spec_signed16 v = (if v < 2 ^ 15 then v else v - 2 ^ 16)"

section \<open>Memory regions and sample data\<close>

text \<open>The addresses of a 4-byte object at \<open>a\<close>.\<close>

definition bytes4 :: "ptr \<Rightarrow> ptr list" where
  "bytes4 a = [a, a + 1, a + 2, a + 3]"

text \<open>Writing a whole calibration structure, field by field.\<close>

definition store_calib :: "memory \<Rightarrow> ptr \<Rightarrow> bmp280_calib_param \<Rightarrow> memory" where
  "store_calib m a c =
     (let m = store16 m a (dig_t1 c);
          m = store16 m (a + 2) (dig_t2 c);
          m = store16 m (a + 4) (dig_t3 c);
          m = store16 m (a + 6) (dig_p1 c);
          m = store16 m (a + 8) (dig_p2 c);
          m = store16 m (a + 10) (dig_p3 c);
          m = store16 m (a + 12) (dig_p4 c);
          m = store16 m (a + 14) (dig_p5 c);
          m = store16 m (a + 16) (dig_p6 c);
          m = store16 m (a + 18) (dig_p7 c);
          m = store16 m (a + 20) (dig_p8 c)
      in store16 m (a + 22) (dig_p9 c))"

text \<open>
  The worked example of the sensor's datasheet: its calibration, and a memory holding
  that calibration at \<open>0x20041FC0\<close>, the raw temperature 519888 at \<open>0x20041FD8\<close> and
  the raw pressure 415148 at \<open>0x20041FDC\<close>. \<open>call_frame\<close> places the two parameters of a
  conversion call below them on the stack.
\<close>

definition datasheet_calib :: bmp280_calib_param where
  "datasheet_calib =
     \<lparr> dig_t1 = 27504, dig_t2 = 26435, dig_t3 = - 1000,
       dig_p1 = 36477, dig_p2 = - 10685, dig_p3 = 3024, dig_p4 = 2855, dig_p5 = 140,
       dig_p6 = - 7, dig_p7 = 15500, dig_p8 = - 14600, dig_p9 = 6000 \<rparr>"

definition datasheet_memory :: memory where
  "datasheet_memory =
     store32 (store32 (store_calib (\<lambda>a. 0) 0x20041FC0 datasheet_calib) 0x20041FD8 519888)
       0x20041FDC 415148"

definition call_frame :: frame where
  "call_frame = \<lparr> at_temp = 0x20041FA0, at_params = 0x20041FA4 \<rparr>"

definition main_layout :: layout where
  "main_layout =
     \<lparr> params_at = 0x20041FC0, temp_at = 0x20041FD8, pressure_at = 0x20041FDC,
       temp_call = call_frame, pressure_call = call_frame \<rparr>"

text \<open>The datasheet memory with \<open>dig_p1\<close> cleared, and the datasheet calibration with a small \<open>dig_p1\<close>.\<close>

definition zero_p1_memory :: memory where
  "zero_p1_memory = store16 datasheet_memory 0x20041FC6 0"

definition low_p1_calib :: bmp280_calib_param where
  "low_p1_calib = datasheet_calib\<lparr>dig_p1 := 20000\<rparr>"

text \<open>A state with empty memory and no bus traffic, and three environments.\<close>

definition idle :: state where
  "idle = \<lparr>mem = (\<lambda>a. 0), bus = [], reads = 0\<rparr>"

definition silent :: environment where
  "silent k i = 0"

definition all_ones :: environment where
  "all_ones k i = 0xFF"

definition sample_bytes :: environment where
  "sample_bytes k i = (if i < 6 then [0xAB, 0xCD, 0xE0, 0x12, 0x34, 0x50] ! i else 0)"

definition signed_calibration :: environment where
  "signed_calibration k i = (if i < 6 then [0x70, 0x6B, 0x43, 0x67, 0x18, 0xFC] ! i else 0)"

text \<open>The bus traffic of one sample read and of the start-up sequence.\<close>

definition poll_traffic :: "bus_op list" where
  "poll_traffic = [I2C_Write 0x76 [0xF7] True, I2C_Read 0x76 6 False]"

definition setup_traffic :: "bus_op list" where
  "setup_traffic =
     [I2C_Write 0x76 [0xF5, 0x94] False, I2C_Write 0x76 [0xF4, 0x2F] False,
      I2C_Write 0x76 [0x88] True, I2C_Read 0x76 24 False]"

section \<open>Arithmetic of words and integers\<close>

lemma wrap_s32_eq: "wrap_s32 k = signed_take_bit 31 k"
  by (simp add: wrap_s32_def signed_take_bit_eq_take_bit_shift take_bit_eq_mod)

lemma wrap_u32_eq: "wrap_u32 k = take_bit 32 k"
  by (simp add: wrap_u32_def take_bit_eq_mod)

lemma asr_eq: "asr k n = drop_bit n k"
  by (simp add: asr_def drop_bit_eq_div)

lemma sint_asr: "sint (signed_drop_bit n (w :: 32 word)) = asr (sint w) n"
  by (simp add: asr_eq sint_signed_drop_bit_eq)

lemma sint_add32: "sint (a + b :: 32 word) = wrap_s32 (sint a + sint b)"
  by (simp add: wrap_s32_eq sint_word_ariths)

lemma sint_sub32: "sint (a - b :: 32 word) = wrap_s32 (sint a - sint b)"
  by (simp add: wrap_s32_eq sint_word_ariths)

lemma sint_mul32: "sint (a * b :: 32 word) = wrap_s32 (sint a * sint b)"
  by (simp add: wrap_s32_eq sint_word_ariths)

lemma sint_shl32: "sint (push_bit n (a :: 32 word)) = wrap_s32 (sint a * 2 ^ n)"
  by (simp add: wrap_s32_eq signed_push_bit_eq) (simp add: push_bit_eq_mult)

lemma sint_ucast16: "sint (ucast (x :: 16 word) :: 32 word) = uint x"
proof -
  have small: "uint x < 65536" using uint_bounded [of x] by simp
  have lower: "- 2147483648 \<le> uint x" using uint_ge_0 [of x] by linarith
  have upper: "uint x < 2147483648" using small by linarith
  show ?thesis using lower upper
    by (simp add: signed_ucast_eq signed_take_bit_int_eq_self_iff)
qed

lemma sint_scast16: "sint (scast (x :: 16 word) :: 32 word) = sint x"
  by (simp add: sint_up_scast is_up)

lemma sint_of_uint: "sint (w :: 32 word) = wrap_s32 (uint w)"
  by (simp add: wrap_s32_eq sint_uint)

lemma uint_of_sint: "uint (w :: 32 word) = wrap_u32 (sint w)"
  by (simp add: wrap_u32_eq uint_sint)

lemma uint_mul32: "uint (a * b :: 32 word) = wrap_u32 (uint a * uint b)"
  by (simp add: wrap_u32_def uint_word_ariths)

lemma uint_lsr32: "uint (drop_bit n (w :: 32 word)) = asr (uint w) n"
  by (simp add: asr_eq unsigned_drop_bit_eq bintr_uint)

lemma sint_lsr32: "sint (drop_bit n (w :: 32 word)) = wrap_s32 (asr (uint w) n)"
  by (simp add: sint_of_uint [of "drop_bit n w"] uint_lsr32)

lemma uint_shl32: "uint (push_bit n (a :: 32 word)) = wrap_u32 (uint a * 2 ^ n)"
  by (simp add: wrap_u32_eq unsigned_push_bit_eq) (simp add: push_bit_eq_mult)

lemma uint_add_signed:
  "uint (q + s :: 32 word) = wrap_u32 (wrap_s32 (wrap_s32 (uint q) + sint s))"
  by (simp add: uint_of_sint [of "q + s"] sint_add32 sint_of_uint [of q])

lemma uint8_bounds: "0 \<le> uint (b :: 8 word)" "uint (b :: 8 word) < 256"
  using uint_bounded [of b] by simp_all

lemma sint16_low:
  assumes "uint (w :: 16 word) < 2 ^ 15"
  shows "sint w = uint w"
proof -
  have lower: "- 32768 \<le> uint w" using uint_ge_0 [of w] by linarith
  have "signed_take_bit 15 (uint w) = uint w"
    by (rule signed_take_bit_int_eq_self) (use lower assms in simp_all)
  then show ?thesis
    by (simp add: sint_uint)
qed

lemma sint16_high:
  assumes "\<not> uint (w :: 16 word) < 2 ^ 15"
  shows "sint w = uint w - 2 ^ 16"
proof -
  have a: "uint w < 65536" using uint_bounded [of w] by simp
  have b: "32768 \<le> uint w" using assms by simp
  have "(uint w + 32768) mod 65536 = (uint w + 32768 - 65536) mod 65536"
    by (simp only: minus_mod_self2)
  also have "\<dots> = uint w + 32768 - 65536"
    by (rule mod_pos_pos_trivial) (use a b in linarith)+
  finally have m: "(uint w + 32768) mod 65536 = uint w - 32768" by simp
  have "sint w = signed_take_bit 15 (uint w)" by (simp add: sint_uint)
  also have "\<dots> = take_bit 16 (uint w + 2 ^ 15) - 2 ^ 15"
    by (simp only: signed_take_bit_eq_take_bit_shift) simp
  also have "\<dots> = (uint w + 32768) mod 65536 - 32768"
    by (simp only: take_bit_eq_mod) simp
  finally show ?thesis using m by simp
qed

lemma sint16: "sint (w :: 16 word) = spec_signed16 (uint w)"
  by (simp add: spec_signed16_def sint16_low sint16_high)

section \<open>Memory\<close>

lemma bytes_of_word32:
  "push_bit 24 (ucast (ucast (drop_bit 24 v) :: 8 word))
     OR push_bit 16 (ucast (ucast (drop_bit 16 v) :: 8 word))
     OR push_bit 8 (ucast (ucast (drop_bit 8 v) :: 8 word))
     OR ucast (ucast v :: 8 word) = (v :: 32 word)"
  (is "?w = v")
proof (rule bit_word_eqI)
  fix n :: nat
  assume "n < LENGTH(32)"
  then consider "n < 8" | "8 \<le> n" "n < 16" | "16 \<le> n" "n < 24" | "24 \<le> n" "n < 32"
    by fastforce
  then show "bit ?w n = bit v n"
    by cases (auto simp: bit_simps)
qed

lemma bytes_of_word16:
  "push_bit 8 (ucast (ucast (drop_bit 8 v) :: 8 word)) OR ucast (ucast v :: 8 word)
     = (v :: 16 word)"
  (is "?w = v")
proof (rule bit_word_eqI)
  fix n :: nat
  assume "n < LENGTH(16)"
  then consider "n < 8" | "8 \<le> n" "n < 16"
    by fastforce
  then show "bit ?w n = bit v n"
    by cases (auto simp: bit_simps)
qed

lemma load32_store32_same: "load32 (store32 m a v) a = v"
  by (simp add: load32_def store32_def bytes_of_word32)

lemma store32_outside: "x \<notin> set (bytes4 b) \<Longrightarrow> store32 m b v x = m x"
  by (auto simp: bytes4_def store32_def)

lemma load32_store32_other:
  assumes "set (bytes4 a) \<inter> set (bytes4 b) = {}"
  shows "load32 (store32 m b v) a = load32 m a"
proof -
  have "x \<notin> set (bytes4 b)" if "x \<in> set (bytes4 a)" for x
    using assms that by blast
  then have "store32 m b v x = m x" if "x \<in> set (bytes4 a)" for x
    using that by (simp add: store32_outside)
  then have "store32 m b v a = m a" "store32 m b v (a + 1) = m (a + 1)"
    "store32 m b v (a + 2) = m (a + 2)" "store32 m b v (a + 3) = m (a + 3)"
    by (simp_all add: bytes4_def)
  then show ?thesis by (simp add: load32_def)
qed

lemma load_store_calib: "load_calib (store_calib m a c) a = c"
  by (simp add: load_calib_def store_calib_def Let_def load16_def store16_def bytes_of_word16)

text \<open>
  What a conversion call sees at the addresses of its own two parameters does not
  depend on the memory it was entered with; elsewhere it sees that memory.
\<close>

lemma enter_slots:
  assumes "x \<in> set (bytes4 (at_temp fr)) \<union> set (bytes4 (at_params fr))"
  shows "enter m fr temp params x = enter m' fr temp params x"
  using assms by (auto simp: enter_def store32_def bytes4_def)

lemma enter_outside:
  assumes "m x = m' x"
  shows "enter m fr temp params x = enter m' fr temp params x"
  using assms by (simp add: enter_def store32_def)

section \<open>Decoding\<close>

lemma six_bytes: "map f [0..<6] = [f 0, f 1, f 2, f 3, f 4, f (5 :: nat)]"
  by (simp add: upt_conv_Cons eval_nat_numeral)

lemma calib_bytes:
  "map f [0..<24] = [f 0, f 1, f 2, f 3, f 4, f 5, f 6, f 7, f 8, f 9, f 10, f 11,
     f 12, f 13, f 14, f 15, f 16, f 17, f 18, f 19, f 20, f 21, f 22, f (23 :: nat)]"
  by (simp add: upt_conv_Cons eval_nat_numeral)

lemma read_raw_mem:
  "mem (bmp280_read_raw rx s temp pressure) =
     store32 (store32 (mem s) pressure
                (raw20 (rx (reads s) 0) (rx (reads s) 1) (rx (reads s) 2)))
       temp (raw20 (rx (reads s) 3) (rx (reads s) 4) (rx (reads s) 5))"
  by (simp add: bmp280_read_raw_def i2c_read_blocking_def i2c_write_blocking_def Let_def
      six_bytes)

lemma spec_raw20_range: "0 \<le> spec_raw20 b0 b1 b2 \<and> spec_raw20 b0 b1 b2 < 2 ^ 20"
proof -
  have a: "push_bit 12 (uint b0) < 2 ^ 20"
    using uint8_bounds [of b0] by (simp add: push_bit_eq_mult)
  have b: "push_bit 4 (uint b1) < 2 ^ 20"
    using uint8_bounds [of b1] by (simp add: push_bit_eq_mult)
  have c: "drop_bit 4 (uint b2) < 2 ^ 20"
    using uint8_bounds [of b2] by (simp add: drop_bit_eq_div)
  have bc: "push_bit 4 (uint b1) OR drop_bit 4 (uint b2) < 2 ^ 20"
    by (rule OR_upper) (use b c in simp_all)
  have "push_bit 12 (uint b0) OR (push_bit 4 (uint b1) OR drop_bit 4 (uint b2)) < 2 ^ 20"
    by (rule OR_upper) (use a bc in simp_all)
  then show ?thesis by (simp add: spec_raw20_def)
qed

lemma uint_raw20: "uint (raw20 b0 b1 b2) = spec_raw20 b0 b1 b2"
proof -
  have a: "take_bit 32 (push_bit 12 (uint b0)) = push_bit 12 (uint b0)"
    using uint8_bounds [of b0] by (simp add: take_bit_int_eq_self push_bit_eq_mult)
  have b: "take_bit 32 (push_bit 4 (uint b1)) = push_bit 4 (uint b1)"
    using uint8_bounds [of b1] by (simp add: take_bit_int_eq_self push_bit_eq_mult)
  have "uint b2 < 2 ^ 32"
    using uint8_bounds [of b2] by simp
  then have c: "take_bit 32 (uint b2) = uint b2"
    by (simp add: take_bit_int_eq_self)
  show ?thesis
    by (simp add: raw20_def spec_raw20_def unsigned_or_eq unsigned_push_bit_eq
        unsigned_drop_bit_eq uint_up_ucast is_up a b c)
qed

lemma sint_raw20: "sint (raw20 b0 b1 b2) = spec_raw20 b0 b1 b2"
proof -
  have "sint (raw20 b0 b1 b2) = signed_take_bit 31 (uint (raw20 b0 b1 b2))"
    by (simp add: sint_uint)
  also have "\<dots> = spec_raw20 b0 b1 b2"
    using spec_raw20_range [of b0 b1 b2]
    by (simp add: uint_raw20 signed_take_bit_int_eq_self)
  finally show ?thesis .
qed

lemma calib_u16_eq: "calib_u16 msb lsb = push_bit 8 (ucast msb) OR ucast lsb"
  by (rule bit_word_eqI) (auto simp: calib_u16_def bit_simps)

lemma calib_s16_eq: "calib_s16 msb lsb = push_bit 8 (ucast msb) OR ucast lsb"
  by (rule bit_word_eqI) (auto simp: calib_s16_def bit_simps)

lemma uint_coeff:
  "uint (push_bit 8 (ucast msb) OR ucast lsb :: 16 word) = spec_coeff lsb (msb :: 8 word)"
proof -
  have "take_bit 16 (push_bit 8 (uint msb)) = push_bit 8 (uint msb)"
    using uint8_bounds [of msb] by (simp add: take_bit_int_eq_self push_bit_eq_mult)
  then show ?thesis
    by (simp add: spec_coeff_def unsigned_or_eq unsigned_push_bit_eq uint_up_ucast is_up)
qed

lemma uint_calib_u16: "uint (calib_u16 msb lsb) = spec_coeff lsb msb"
  by (simp add: calib_u16_eq uint_coeff)

lemma sint_calib_s16: "sint (calib_s16 msb lsb) = spec_signed16 (spec_coeff lsb msb)"
  by (simp add: sint16 calib_s16_eq uint_coeff)

lemma calib_s16_negative: "sint (calib_s16 msb lsb) < 0 \<longleftrightarrow> bit msb 7"
proof -
  have "sint (calib_s16 msb lsb) < 0 \<longleftrightarrow> bit (calib_s16 msb lsb) 15"
    using bit_last_iff [of "calib_s16 msb lsb"] by simp
  also have "\<dots> \<longleftrightarrow> bit msb 7"
    by (auto simp: calib_s16_eq bit_simps dest: bit_imp_le_length)
  finally show ?thesis .
qed

lemma spec_signed16_negative:
  "spec_signed16 (spec_coeff lsb msb) < 0 \<longleftrightarrow> bit msb 7"
  using calib_s16_negative [of msb lsb] by (simp add: sint_calib_s16)

lemma get_calib_params_mem:
  "mem (bmp280_get_calib_params rx s params) =
     store_calib (mem s) params
       \<lparr> dig_t1 = calib_u16 (rx (reads s) 1) (rx (reads s) 0),
         dig_t2 = calib_s16 (rx (reads s) 3) (rx (reads s) 2),
         dig_t3 = calib_s16 (rx (reads s) 5) (rx (reads s) 4),
         dig_p1 = calib_u16 (rx (reads s) 7) (rx (reads s) 6),
         dig_p2 = calib_s16 (rx (reads s) 9) (rx (reads s) 8),
         dig_p3 = calib_s16 (rx (reads s) 11) (rx (reads s) 10),
         dig_p4 = calib_s16 (rx (reads s) 13) (rx (reads s) 12),
         dig_p5 = calib_s16 (rx (reads s) 15) (rx (reads s) 14),
         dig_p6 = calib_s16 (rx (reads s) 17) (rx (reads s) 16),
         dig_p7 = calib_s16 (rx (reads s) 19) (rx (reads s) 18),
         dig_p8 = calib_s16 (rx (reads s) 21) (rx (reads s) 20),
         dig_p9 = calib_s16 (rx (reads s) 23) (rx (reads s) 22) \<rparr>"
  by (simp add: bmp280_get_calib_params_def i2c_read_blocking_def i2c_write_blocking_def
      NUM_CALIB_PARAMS_def store_calib_def Let_def calib_bytes)

section \<open>Bus traffic\<close>

lemma read_raw_bus: "bus (bmp280_read_raw rx s temp pressure) = bus s @ poll_traffic"
  by (simp add: bmp280_read_raw_def i2c_read_blocking_def i2c_write_blocking_def Let_def
      poll_traffic_def addr_def BMP280_WRITE_MODE_def BMP280_READ_MODE_def
      REG_PRESSURE_MSB_def)

lemma loop_body_bus: "bus (snd (main_loop_body rx l s)) = bus s @ poll_traffic"
  by (simp add: main_loop_body_def Let_def read_raw_bus)

lemma main_loop_bus:
  "bus (snd (main_loop n rx l s)) = bus s @ concat (replicate n poll_traffic)"
proof (induction n arbitrary: s)
  case 0
  then show ?case by simp
next
  case (Suc n)
  obtain r s1 where body: "main_loop_body rx l s = (r, s1)"
    by (cases "main_loop_body rx l s")
  obtain rs s2 where rest: "main_loop n rx l s1 = (rs, s2)"
    by (cases "main_loop n rx l s1")
  have "bus s1 = bus s @ poll_traffic"
    using loop_body_bus [of rx l s] body by simp
  moreover have "bus s2 = bus s1 @ concat (replicate n poll_traffic)"
    using Suc.IH [of s1] rest by simp
  ultimately show ?case
    using body rest by simp
qed

lemma main_loop_length: "length (fst (main_loop n rx l s)) = n"
proof (induction n arbitrary: s)
  case 0
  then show ?case by simp
next
  case (Suc n)
  obtain r s1 where body: "main_loop_body rx l s = (r, s1)"
    by (cases "main_loop_body rx l s")
  obtain rs s2 where rest: "main_loop n rx l s1 = (rs, s2)"
    by (cases "main_loop n rx l s1")
  have "length rs = n"
    using Suc.IH [of s1] rest by simp
  then show ?case
    using body rest by simp
qed

lemma main_setup_bus: "bus (main_setup rx l s) = bus s @ setup_traffic"
  by (simp add: main_setup_def bmp280_get_calib_params_def bmp280_init_def
      i2c_read_blocking_def i2c_write_blocking_def Let_def setup_traffic_def
      addr_def BMP280_WRITE_MODE_def BMP280_READ_MODE_def REG_DIG_T1_LSB_def
      REG_CONFIG_def REG_CTRL_MEAS_def reg_config_val_def reg_ctrl_meas_val_def
      NUM_CALIB_PARAMS_def)

section \<open>Pressure compensation\<close>

lemma compensate_pressure_total: "\<exists>v. compensate_pressure t_fine p c = Inr v"
  by (simp add: compensate_pressure_def udiv32_def Let_def)

lemma sint_pressure_var2:
  "sint (pressure_var2 t_fine c) = spec_var2 (sint t_fine) (spec_params_of c)"
  by (simp add: pressure_var2_def spec_var2_def spec_params_of_def Let_def sint_asr sint_add32
      sint_sub32 sint_mul32 sint_shl32 sint_scast16)

lemma sint_pressure_var1:
  "sint (pressure_var1 t_fine c) = spec_var1 (sint t_fine) (spec_params_of c)"
  by (simp add: pressure_var1_def spec_var1_def spec_params_of_def Let_def sint_asr sint_add32
      sint_sub32 sint_mul32 sint_ucast16 sint_scast16)

lemma uint_var1:
  "uint (pressure_var1 t_fine c) = wrap_u32 (spec_var1 (sint t_fine) (spec_params_of c))"
  by (simp add: uint_of_sint [of "pressure_var1 t_fine c"] sint_pressure_var1)

lemma var1_zero_iff:
  "pressure_var1 t_fine c = 0 \<longleftrightarrow> spec_var1 (sint t_fine) (spec_params_of c) = 0"
  using signed_eq_0_iff [of "pressure_var1 t_fine c", where ?'a = int]
  by (simp add: sint_pressure_var1)

lemma uint_pressure_finish:
  "uint (pressure_finish q c) = spec_finish_unsigned (uint q) (spec_params_of c)"
  by (simp add: pressure_finish_def spec_finish_unsigned_def spec_params_of_def Let_def
      uint_add_signed sint_asr sint_add32 sint_mul32 sint_scast16 sint_lsr32 uint_mul32
      uint_lsr32)

lemma uint_converted:
  "uint ((1048576 - p - x) * 3125 :: 32 word) = wrap_u32 ((1048576 - sint p - sint x) * 3125)"
proof -
  have "(1048576 - p - x) * 3125 = (word_of_int ((1048576 - sint p - sint x) * 3125) :: 32 word)"
    by simp
  then show ?thesis
    by (simp only: uint_word_of_int wrap_u32_def) simp
qed

lemma compensate_pressure_low:
  assumes "pressure_var1 t_fine c \<noteq> 0"
    and "cv = (1048576 - p - signed_drop_bit 12 (pressure_var2 t_fine c)) * 3125"
    and "cv < 0x80000000"
  shows "compensate_pressure t_fine p c
           = Inr (pressure_finish (push_bit 1 cv div pressure_var1 t_fine c) c)"
  using assms by (simp add: compensate_pressure_def Let_def udiv32_def)

lemma compensate_pressure_high:
  assumes "pressure_var1 t_fine c \<noteq> 0"
    and "cv = (1048576 - p - signed_drop_bit 12 (pressure_var2 t_fine c)) * 3125"
    and "\<not> cv < 0x80000000"
  shows "compensate_pressure t_fine p c
           = Inr (pressure_finish (cv div pressure_var1 t_fine c * 2) c)"
  using assms by (simp add: compensate_pressure_def Let_def udiv32_def)

lemma spec_pressure_low:
  assumes "spec_var1 fine k \<noteq> 0"
    and "sp = wrap_u32 ((1048576 - raw - asr (spec_var2 fine k) 12) * 3125)"
    and "sp < 0x80000000"
  shows "spec_pressure_unsigned fine raw k
           = spec_finish_unsigned (wrap_u32 (sp * 2 ^ 1) div wrap_u32 (spec_var1 fine k)) k"
  using assms by (simp add: spec_pressure_unsigned_def spec_quotient_def Let_def)

lemma spec_pressure_high:
  assumes "spec_var1 fine k \<noteq> 0"
    and "sp = wrap_u32 ((1048576 - raw - asr (spec_var2 fine k) 12) * 3125)"
    and "\<not> sp < 0x80000000"
  shows "spec_pressure_unsigned fine raw k
           = spec_finish_unsigned (wrap_u32 (sp div wrap_u32 (spec_var1 fine k) * 2)) k"
  using assms by (simp add: spec_pressure_unsigned_def spec_quotient_def Let_def)

section \<open>The datasheet example\<close>

lemma datasheet_memory_contents:
  "sint (load32 datasheet_memory 0x20041FD8) = 519888"
  "sint (load32 datasheet_memory 0x20041FDC) = 415148"
  "load_calib datasheet_memory 0x20041FC0 = datasheet_calib"
  by (simp_all add: datasheet_memory_def store_calib_def datasheet_calib_def load_calib_def
      load16_def load32_def store16_def store32_def Let_def)

lemma datasheet_fine: "sint (bmp280_convert datasheet_memory 0x20041FD8 0x20041FC0) = 128422"
  by (simp add: bmp280_convert_def datasheet_memory_def store_calib_def datasheet_calib_def
      load_calib_def load16_def load32_def store16_def store32_def Let_def)

lemma datasheet_temperature: "spec_temperature 519888 27504 26435 (- 1000) = 2508"
  by (simp add: spec_temperature_def spec_fine_def wrap_s32_def asr_def Let_def)

lemma datasheet_pressure: "compensate_pressure 128422 415148 datasheet_calib = Inr 100656"
  by (simp add: compensate_pressure_def pressure_var1_def pressure_var2_def
      pressure_finish_def udiv32_def datasheet_calib_def Let_def)

text \<open>
  \<open>bmp280_convert_temp\<close> hands \<open>bmp280_convert\<close> the addresses of its own parameters, so
  its result is a function of the two pointer values and of the two bytes that follow
  the \<open>params\<close> parameter: two memories that agree on these two bytes give the same
  temperature, whatever raw sample and calibration they hold.
\<close>

lemma bmp280_convert_temp_ignores_memory:
  assumes "m (at_params fr + 4) = m' (at_params fr + 4)"
    and "m (at_params fr + 5) = m' (at_params fr + 5)"
  shows "bmp280_convert_temp m fr temp params = bmp280_convert_temp m' fr temp params"
proof -
  let ?e = "enter m fr temp params" and ?e' = "enter m' fr temp params"
  have t: "load32 ?e (at_temp fr) = load32 ?e' (at_temp fr)"
    using enter_slots [of _ fr m temp params m']
    by (simp add: load32_def bytes4_def)
  have p0: "load16 ?e (at_params fr) = load16 ?e' (at_params fr)"
    using enter_slots [of _ fr m temp params m']
    by (simp add: load16_def bytes4_def)
  have p2: "load16 ?e (at_params fr + 2) = load16 ?e' (at_params fr + 2)"
    using enter_slots [of _ fr m temp params m']
    by (simp add: load16_def bytes4_def)
  have a4: "?e (at_params fr + 4) = ?e' (at_params fr + 4)"
    by (rule enter_outside) (rule assms(1))
  have five: "at_params fr + 4 + 1 = at_params fr + 5"
    by simp
  have a5: "?e (at_params fr + 4 + 1) = ?e' (at_params fr + 4 + 1)"
    unfolding five by (rule enter_outside) (rule assms(2))
  have p4: "load16 ?e (at_params fr + 4) = load16 ?e' (at_params fr + 4)"
    unfolding load16_def by (simp only: a4 a5)
  show ?thesis
    by (simp add: bmp280_convert_temp_def bmp280_convert_def load_calib_def Let_def t p0 p2 p4)
qed

section \<open>Claims\<close>

text \<open>
  C1. For every raw temperature and every calibration, \<open>bmp280_convert\<close> returns
  \<open>v1 + v2\<close> with \<open>v1 = ((raw_t >> 3) - (dig_t1 << 1)) * dig_t2 >> 11\<close> and
  \<open>v2 = (((raw_t >> 4) - dig_t1) * ((raw_t >> 4) - dig_t1) >> 12) * dig_t3 >> 14\<close>,
  shifts arithmetic, every operation wrapping as signed 32-bit.
\<close>

theorem bmp280_convert_spec:
  "sint (bmp280_convert m temp params) =
     spec_fine (sint (load32 m temp))
               (uint (dig_t1 (load_calib m params)))
               (sint (dig_t2 (load_calib m params)))
               (sint (dig_t3 (load_calib m params)))"
  by (simp add: bmp280_convert_def spec_fine_def Let_def sint_asr sint_add32 sint_sub32
      sint_mul32 sint_shl32 sint_ucast16 sint_scast16)

text \<open>
  C2. \<open>bmp280_convert_temp\<close> should return \<open>(fine * 5 + 128) >> 8\<close> with \<open>fine\<close> the fine
  temperature of the raw temperature and the calibration it is given. On the datasheet
  example (raw temperature 519888, \<open>dig_t1 = 27504\<close>, \<open>dig_t2 = 26435\<close>,
  \<open>dig_t3 = -1000\<close>) that is 2508, that is 25.08 degrees; the function returns 3930,
  computed from the pointer values.
\<close>

theorem bmp280_convert_temp_datasheet:
  "sint (load32 datasheet_memory 0x20041FD8) = 519888
   \<and> load_calib datasheet_memory 0x20041FC0 = datasheet_calib
   \<and> spec_temperature 519888 (uint (dig_t1 datasheet_calib)) (sint (dig_t2 datasheet_calib))
         (sint (dig_t3 datasheet_calib)) = 2508
   \<and> sint (bmp280_convert_temp datasheet_memory call_frame 0x20041FD8 0x20041FC0) = 3930"
proof -
  have spec: "spec_temperature 519888 (uint (dig_t1 datasheet_calib))
      (sint (dig_t2 datasheet_calib)) (sint (dig_t3 datasheet_calib)) = 2508"
    by (simp add: datasheet_calib_def datasheet_temperature)
  have code: "sint (bmp280_convert_temp datasheet_memory call_frame 0x20041FD8 0x20041FC0) = 3930"
    by (simp add: bmp280_convert_temp_def bmp280_convert_def enter_def call_frame_def
        datasheet_memory_def store_calib_def datasheet_calib_def load_calib_def load16_def
        load32_def store16_def store32_def Let_def)
  show ?thesis
    using spec code by (simp add: datasheet_memory_contents)
qed

text \<open>
  C3, as stated: the pressure is the value of the specification's pipeline. With the
  datasheet calibration, \<open>dig_p1\<close> lowered to 20000, fine temperature 128422 and raw
  pressure 1002930, \<open>p\<close> is 429570 after the division, \<open>(p >> 3) * (p >> 3)\<close> has its
  top bit set, and the pipeline as written gives 402799 where the code gives 450799.
\<close>

theorem pressure_signed_shift_counterexample:
  "compensate_pressure 128422 1002930 low_p1_calib = Inr 450799
   \<and> spec_pressure (sint (128422 :: 32 word)) (sint (1002930 :: 32 word))
         (spec_params_of low_p1_calib) = 402799"
proof -
  have code: "compensate_pressure 128422 1002930 low_p1_calib = Inr 450799"
    by (simp add: compensate_pressure_def pressure_var1_def pressure_var2_def
        pressure_finish_def udiv32_def low_p1_calib_def datasheet_calib_def Let_def)
  have v1: "spec_var1 128422 (spec_params_of low_p1_calib) = 19996"
    by (simp add: spec_var1_def spec_params_of_def low_p1_calib_def datasheet_calib_def
        wrap_s32_def asr_def Let_def)
  have v2: "spec_var2 128422 (spec_params_of low_p1_calib) = 187120048"
    by (simp add: spec_var2_def spec_params_of_def low_p1_calib_def datasheet_calib_def
        wrap_s32_def asr_def Let_def)
  have q: "spec_quotient 128422 1002930 (spec_params_of low_p1_calib) = 429570"
    by (simp add: spec_quotient_def v1 v2 wrap_u32_def asr_def Let_def)
  have "spec_finish 429570 (spec_params_of low_p1_calib) = 402799"
    by (simp add: spec_finish_def spec_params_of_def low_p1_calib_def datasheet_calib_def
        wrap_s32_def wrap_u32_def asr_def Let_def)
  then have spec: "spec_pressure 128422 1002930 (spec_params_of low_p1_calib) = 402799"
    by (simp add: spec_pressure_def v1 q)
  show ?thesis using code spec by simp
qed

text \<open>
  C3, amended. For every fine temperature, raw pressure and calibration, the body of
  \<open>bmp280_convert_pressure\<close> returns, without fault, the unsigned 32-bit value of the
  specification's pipeline in which \<open>(p >> 3) * (p >> 3)\<close> is shifted right by 13 as an
  unsigned value before it is cast to signed; this includes the early return of 0 and
  the branch on \<open>p < 0x80000000\<close>.
\<close>

theorem compensate_pressure_spec:
  "\<exists>v. compensate_pressure t_fine p c = Inr v
       \<and> uint v = spec_pressure_unsigned (sint t_fine) (sint p) (spec_params_of c)"
proof (cases "pressure_var1 t_fine c = 0")
  case True
  then show ?thesis
    by (simp add: compensate_pressure_def spec_pressure_unsigned_def var1_zero_iff [symmetric])
next
  case False
  define k where "k = spec_params_of c"
  define cv where "cv = (1048576 - p - signed_drop_bit 12 (pressure_var2 t_fine c)) * 3125"
  define sp where
    "sp = wrap_u32 ((1048576 - sint p - asr (spec_var2 (sint t_fine) k) 12) * 3125)"
  have ucv: "uint cv = sp"
    unfolding cv_def sp_def k_def
    by (simp only: uint_converted sint_asr sint_pressure_var2)
  have uv1: "uint (pressure_var1 t_fine c) = wrap_u32 (spec_var1 (sint t_fine) k)"
    unfolding k_def by (rule uint_var1)
  have nz: "spec_var1 (sint t_fine) k \<noteq> 0"
    using False unfolding k_def by (simp add: var1_zero_iff)
  show ?thesis
  proof (cases "cv < 0x80000000")
    case True
    then have small: "sp < 0x80000000"
      using ucv by (simp add: word_less_alt)
    have "uint (pressure_finish (push_bit 1 cv div pressure_var1 t_fine c) c)
            = spec_finish_unsigned
                (wrap_u32 (sp * 2 ^ 1) div wrap_u32 (spec_var1 (sint t_fine) k)) k"
      by (simp only: uint_pressure_finish uint_div uint_shl32 ucv uv1 k_def)
    then show ?thesis
      using compensate_pressure_low [OF False cv_def True]
        spec_pressure_low [OF nz sp_def small]
      by (simp add: k_def)
  next
    case large: False
    then have big: "\<not> sp < 0x80000000"
      using ucv by (simp add: word_less_alt)
    have two: "uint (2 :: 32 word) = 2" by simp
    have "uint (pressure_finish (cv div pressure_var1 t_fine c * 2) c)
            = spec_finish_unsigned
                (wrap_u32 (sp div wrap_u32 (spec_var1 (sint t_fine) k) * 2)) k"
      by (simp only: uint_pressure_finish uint_div uint_mul32 ucv uv1 k_def two)
    then show ?thesis
      using compensate_pressure_high [OF False cv_def large]
        spec_pressure_high [OF nz sp_def big]
      by (simp add: k_def)
  qed
qed

text \<open>
  C4. Whenever \<open>var1\<close> is 0 after the step \<open>((32768 + var1) * dig_p1) >> 15\<close>,
  \<open>bmp280_convert_pressure\<close> returns 0 and no fault.
\<close>

theorem var1_zero_returns_zero:
  assumes "pressure_var1 (bmp280_convert (enter m fr temp params) (at_temp fr) (at_params fr))
             (load_calib (enter m fr temp params) params) = 0"
  shows "bmp280_convert_pressure m fr pressure temp params = Inr 0"
  using assms by (simp add: bmp280_convert_pressure_def compensate_pressure_def Let_def)

theorem var1_zero_returns_zero_witness:
  "pressure_var1
     (bmp280_convert (enter zero_p1_memory call_frame 0x20041FD8 0x20041FC0)
        (at_temp call_frame) (at_params call_frame))
     (load_calib (enter zero_p1_memory call_frame 0x20041FD8 0x20041FC0) 0x20041FC0) = 0
   \<and> bmp280_convert_pressure zero_p1_memory call_frame 0x20041FDC 0x20041FD8 0x20041FC0
       = Inr 0"
proof -
  have p1: "dig_p1 (load_calib (enter zero_p1_memory call_frame 0x20041FD8 0x20041FC0)
      0x20041FC0) = 0"
    by (simp add: load_calib_def load16_def enter_def store32_def store16_def call_frame_def
        zero_p1_memory_def)
  have z: "pressure_var1
     (bmp280_convert (enter zero_p1_memory call_frame 0x20041FD8 0x20041FC0)
        (at_temp call_frame) (at_params call_frame))
     (load_calib (enter zero_p1_memory call_frame 0x20041FD8 0x20041FC0) 0x20041FC0) = 0"
    by (simp add: pressure_var1_def Let_def p1)
  show ?thesis
    using z var1_zero_returns_zero [OF z] by simp
qed

text \<open>
  C5. The compensation functions are total: \<open>bmp280_convert\<close> and
  \<open>bmp280_convert_temp\<close> contain no division, and in \<open>bmp280_convert_pressure\<close> the
  division is never reached with a zero divisor, for any fine temperature, raw pressure
  and calibration and for any memory and pointers.
\<close>

theorem pressure_never_divides_by_zero:
  "(\<exists>v. compensate_pressure t_fine p c = Inr v)
   \<and> (\<exists>v. bmp280_convert_pressure m fr pressure temp params = Inr v)"
  by (simp add: bmp280_convert_pressure_def compensate_pressure_total Let_def)

text \<open>
  C6. \<open>bmp280_get_calib_params\<close> decodes coefficient \<open>n\<close> from byte \<open>2n\<close> (low) and byte
  \<open>2n + 1\<close> (high) of the 24 bytes read as \<open>(high << 8) | low\<close>, \<open>dig_t1\<close> and
  \<open>dig_p1\<close> unsigned, the ten others as two's-complement signed 16-bit; a signed
  coefficient is negative exactly when the top bit of its high byte is set.
\<close>

theorem calibration_decoding:
  "(let c = load_calib (mem (bmp280_get_calib_params rx s params)) params;
        b = rx (reads s)
    in uint (dig_t1 c) = spec_coeff (b 0) (b 1)
     \<and> sint (dig_t2 c) = spec_signed16 (spec_coeff (b 2) (b 3))
     \<and> sint (dig_t3 c) = spec_signed16 (spec_coeff (b 4) (b 5))
     \<and> uint (dig_p1 c) = spec_coeff (b 6) (b 7)
     \<and> sint (dig_p2 c) = spec_signed16 (spec_coeff (b 8) (b 9))
     \<and> sint (dig_p3 c) = spec_signed16 (spec_coeff (b 10) (b 11))
     \<and> sint (dig_p4 c) = spec_signed16 (spec_coeff (b 12) (b 13))
     \<and> sint (dig_p5 c) = spec_signed16 (spec_coeff (b 14) (b 15))
     \<and> sint (dig_p6 c) = spec_signed16 (spec_coeff (b 16) (b 17))
     \<and> sint (dig_p7 c) = spec_signed16 (spec_coeff (b 18) (b 19))
     \<and> sint (dig_p8 c) = spec_signed16 (spec_coeff (b 20) (b 21))
     \<and> sint (dig_p9 c) = spec_signed16 (spec_coeff (b 22) (b 23))
     \<and> (sint (dig_t2 c) < 0) = bit (b 3) 7
     \<and> (sint (dig_t3 c) < 0) = bit (b 5) 7
     \<and> (sint (dig_p2 c) < 0) = bit (b 9) 7
     \<and> (sint (dig_p3 c) < 0) = bit (b 11) 7
     \<and> (sint (dig_p4 c) < 0) = bit (b 13) 7
     \<and> (sint (dig_p5 c) < 0) = bit (b 15) 7
     \<and> (sint (dig_p6 c) < 0) = bit (b 17) 7
     \<and> (sint (dig_p7 c) < 0) = bit (b 19) 7
     \<and> (sint (dig_p8 c) < 0) = bit (b 21) 7
     \<and> (sint (dig_p9 c) < 0) = bit (b 23) 7)"
  by (simp add: Let_def get_calib_params_mem load_store_calib uint_calib_u16 sint_calib_s16
      spec_signed16_negative)

theorem calibration_decoding_witness:
  "(let c = load_calib (mem (bmp280_get_calib_params signed_calibration idle 0x20041FC0))
              0x20041FC0
    in uint (dig_t1 c) = 27504 \<and> sint (dig_t2 c) = 26435 \<and> sint (dig_t3 c) = - 1000)"
  using calibration_decoding [of signed_calibration idle "0x20041FC0"]
  by (simp add: Let_def signed_calibration_def idle_def spec_coeff_def spec_signed16_def)

text \<open>
  C7. \<open>bmp280_read_raw\<close> stores \<open>(byte0 << 12) | (byte1 << 4) | (byte2 >> 4)\<close> as raw
  pressure and the same pattern over bytes 3 to 5 as raw temperature, for every six
  bytes read, the two destinations being distinct objects. For the bytes
  \<open>AB CD E0 12 34 50\<close> these are \<open>0xABCDE\<close> and \<open>0x12345\<close>.
\<close>

theorem read_raw_decodes:
  assumes "set (bytes4 pressure) \<inter> set (bytes4 temp) = {}"
  shows "sint (load32 (mem (bmp280_read_raw rx s temp pressure)) pressure)
           = spec_raw20 (rx (reads s) 0) (rx (reads s) 1) (rx (reads s) 2)
         \<and> sint (load32 (mem (bmp280_read_raw rx s temp pressure)) temp)
           = spec_raw20 (rx (reads s) 3) (rx (reads s) 4) (rx (reads s) 5)"
  using assms
  by (simp add: read_raw_mem load32_store32_same load32_store32_other sint_raw20)

theorem read_raw_decodes_witness:
  "set (bytes4 0x20041FDC) \<inter> set (bytes4 0x20041FD8) = {}
   \<and> sint (load32 (mem (bmp280_read_raw sample_bytes idle 0x20041FD8 0x20041FDC)) 0x20041FDC)
       = 0xABCDE
   \<and> sint (load32 (mem (bmp280_read_raw sample_bytes idle 0x20041FD8 0x20041FDC)) 0x20041FD8)
       = 0x12345"
proof -
  have d: "set (bytes4 0x20041FDC) \<inter> set (bytes4 0x20041FD8) = {}"
    by (simp add: bytes4_def)
  show ?thesis
    using d read_raw_decodes [OF d, of sample_bytes idle]
    by (simp add: spec_raw20_def sample_bytes_def idle_def)
qed

text \<open>
  C8. The register constants have the values of the register map: calibration registers
  \<open>0x88\<close> to \<open>0x9F\<close>, sample registers \<open>0xF7\<close> to \<open>0xFC\<close>, \<open>ctrl_meas\<close> \<open>0xF4\<close>, \<open>config\<close>
  \<open>0xF5\<close>, \<open>reset\<close> \<open>0xE0\<close>. \<open>bmp280_init\<close> writes exactly \<open>0b10010100\<close> (bit 0 clear) to
  \<open>config\<close> and then \<open>0b00101111\<close> to \<open>ctrl_meas\<close>.
\<close>

theorem register_map:
  "[REG_DIG_T1_LSB, REG_DIG_T1_MSB, REG_DIG_T2_LSB, REG_DIG_T2_MSB, REG_DIG_T3_LSB,
    REG_DIG_T3_MSB, REG_DIG_P1_LSB, REG_DIG_P1_MSB, REG_DIG_P2_LSB, REG_DIG_P2_MSB,
    REG_DIG_P3_LSB, REG_DIG_P3_MSB, REG_DIG_P4_LSB, REG_DIG_P4_MSB, REG_DIG_P5_LSB,
    REG_DIG_P5_MSB, REG_DIG_P6_LSB, REG_DIG_P6_MSB, REG_DIG_P7_LSB, REG_DIG_P7_MSB,
    REG_DIG_P8_LSB, REG_DIG_P8_MSB, REG_DIG_P9_LSB, REG_DIG_P9_MSB]
     = [0x88, 0x89, 0x8A, 0x8B, 0x8C, 0x8D, 0x8E, 0x8F, 0x90, 0x91, 0x92, 0x93,
        0x94, 0x95, 0x96, 0x97, 0x98, 0x99, 0x9A, 0x9B, 0x9C, 0x9D, 0x9E, 0x9F]
   \<and> [REG_PRESSURE_MSB, REG_PRESSURE_LSB, REG_PRESSURE_XLSB,
       REG_TEMP_MSB, REG_TEMP_LSB, REG_TEMP_XLSB] = [0xF7, 0xF8, 0xF9, 0xFA, 0xFB, 0xFC]
   \<and> REG_CTRL_MEAS = 0xF4 \<and> REG_CONFIG = 0xF5 \<and> REG_RESET = 0xE0
   \<and> bus (bmp280_init s)
       = bus s @ [I2C_Write 0x76 [0xF5, 0b10010100] False,
                  I2C_Write 0x76 [0xF4, 0b00101111] False]
   \<and> \<not> bit reg_config_val 0"
  by (simp add: REG_DIG_T1_LSB_def REG_DIG_T1_MSB_def REG_DIG_T2_LSB_def REG_DIG_T2_MSB_def
      REG_DIG_T3_LSB_def REG_DIG_T3_MSB_def REG_DIG_P1_LSB_def REG_DIG_P1_MSB_def
      REG_DIG_P2_LSB_def REG_DIG_P2_MSB_def REG_DIG_P3_LSB_def REG_DIG_P3_MSB_def
      REG_DIG_P4_LSB_def REG_DIG_P4_MSB_def REG_DIG_P5_LSB_def REG_DIG_P5_MSB_def
      REG_DIG_P6_LSB_def REG_DIG_P6_MSB_def REG_DIG_P7_LSB_def REG_DIG_P7_MSB_def
      REG_DIG_P8_LSB_def REG_DIG_P8_MSB_def REG_DIG_P9_LSB_def REG_DIG_P9_MSB_def
      REG_PRESSURE_MSB_def REG_PRESSURE_LSB_def REG_PRESSURE_XLSB_def
      REG_TEMP_MSB_def REG_TEMP_LSB_def REG_TEMP_XLSB_def
      REG_CTRL_MEAS_def REG_CONFIG_def REG_RESET_def
      bmp280_init_def i2c_write_blocking_def Let_def addr_def BMP280_WRITE_MODE_def
      reg_config_val_def reg_ctrl_meas_val_def)

text \<open>
  C9, as stated: a poll before calibration fails with an error and touches no bus. One
  pass of the loop of \<open>main\<close> on a device that was never configured or calibrated
  performs the two bus transactions of a sample read and returns a reading.
\<close>

theorem poll_before_calibrate_counterexample:
  "bus idle = []
   \<and> bus (snd (main_loop_body silent main_layout idle))
       = [I2C_Write 0x76 [0xF7] True, I2C_Read 0x76 6 False]
   \<and> fst (main_loop_body silent main_layout idle) = (3930, Inr 0)"
  by (simp add: main_loop_body_def bmp280_read_raw_def i2c_read_blocking_def
      i2c_write_blocking_def Let_def idle_def silent_def main_layout_def call_frame_def
      six_bytes addr_def BMP280_WRITE_MODE_def BMP280_READ_MODE_def REG_PRESSURE_MSB_def
      bmp280_convert_temp_def bmp280_convert_pressure_def bmp280_convert_def enter_def
      compensate_pressure_def pressure_var1_def pressure_var2_def raw20_def
      load_calib_def load16_def load32_def store32_def)

text \<open>
  C9, amended. The driver keeps no initialisation state and has no error for a poll out
  of order: one pass of the loop always adds exactly the held write of register \<open>0xF7\<close>
  and the 6-byte read to the bus traffic and yields a pressure result without fault,
  whatever happened before. That polls follow calibration is a property of \<open>main\<close>
  alone: its traffic is the two configuration writes, the calibration select and
  24-byte read, then one sample read for each of its passes.
\<close>

theorem poll_has_no_guard:
  "bus (snd (main_loop_body rx l s)) = bus s @ poll_traffic
   \<and> (\<exists>v. snd (fst (main_loop_body rx l s)) = Inr v)
   \<and> bus (snd (main n rx l s)) = bus s @ setup_traffic @ concat (replicate n poll_traffic)
   \<and> length (fst (main n rx l s)) = n"
proof -
  have "\<exists>v. snd (fst (main_loop_body rx l s)) = Inr v"
    by (simp add: main_loop_body_def bmp280_convert_pressure_def Let_def
        compensate_pressure_total)
  then show ?thesis
    by (simp add: loop_body_bus main_def main_loop_bus main_setup_bus main_loop_length)
qed

text \<open>
  C10. Whatever six bytes the read leaves in the buffer, the raw pressure and the raw
  temperature stored by \<open>bmp280_read_raw\<close> lie between 0 and \<open>2 ^ 20 - 1\<close> as signed
  32-bit values, the two destinations being distinct objects.
\<close>

theorem read_raw_range:
  assumes "set (bytes4 pressure) \<inter> set (bytes4 temp) = {}"
  shows "0 \<le> sint (load32 (mem (bmp280_read_raw rx s temp pressure)) pressure)
         \<and> sint (load32 (mem (bmp280_read_raw rx s temp pressure)) pressure) \<le> 2 ^ 20 - 1
         \<and> 0 \<le> sint (load32 (mem (bmp280_read_raw rx s temp pressure)) temp)
         \<and> sint (load32 (mem (bmp280_read_raw rx s temp pressure)) temp) \<le> 2 ^ 20 - 1"
  using assms spec_raw20_range [of "rx (reads s) 0" "rx (reads s) 1" "rx (reads s) 2"]
    spec_raw20_range [of "rx (reads s) 3" "rx (reads s) 4" "rx (reads s) 5"]
  by (simp add: read_raw_mem load32_store32_same load32_store32_other sint_raw20)

theorem read_raw_range_witness:
  "set (bytes4 0x20041FDC) \<inter> set (bytes4 0x20041FD8) = {}
   \<and> sint (load32 (mem (bmp280_read_raw all_ones idle 0x20041FD8 0x20041FDC)) 0x20041FDC)
       = 2 ^ 20 - 1
   \<and> sint (load32 (mem (bmp280_read_raw all_ones idle 0x20041FD8 0x20041FDC)) 0x20041FD8)
       = 2 ^ 20 - 1"
proof -
  have d: "set (bytes4 0x20041FDC) \<inter> set (bytes4 0x20041FD8) = {}"
    by (simp add: bytes4_def)
  have v: "sint (load32 (mem (bmp280_read_raw all_ones idle 0x20041FD8 0x20041FDC)) 0x20041FDC)
       = 2 ^ 20 - 1"
    "sint (load32 (mem (bmp280_read_raw all_ones idle 0x20041FD8 0x20041FDC)) 0x20041FD8)
       = 2 ^ 20 - 1"
    by (simp_all add: read_raw_mem load32_store32_same load32_store32_other d all_ones_def
        raw20_def)
  show ?thesis
    using d v read_raw_range [OF d, of all_ones idle] by simp
qed

end
